theory Spec2Isabelle
  imports Main
begin

section \<open>Requests, forms and responses\<close>

text \<open>
  The two views of \<^verbatim>\<open>app/views.py\<close> and the URL configuration of
  \<^verbatim>\<open>app/urls.py\<close>, as functions over an explicit store. The table of
  \<^verbatim>\<open>Usuario\<close> rows is a list (oldest row first); a view takes the request and the
  table and returns its outcome, a response or the exception that a framework call
  raised, together with the table it leaves behind. Faults of the database itself are
  not part of the model.
\<close>

type_synonym querydict = "(string \<times> string) list"

type_synonym errordict = "(string \<times> string list) list"

text \<open>
  The body of a request: form fields as they were sent, or a multipart body that the
  framework cannot parse.
\<close>

datatype request_body = Form_fields querydict | Malformed_multipart

text \<open>
  The request object; \<open>http_method\<close> is \<^verbatim>\<open>request.method\<close>. The attribute
  \<^verbatim>\<open>request.POST\<close> is not a field: it is parsed from the body when it is read
  (\<open>POST\<close> below).
\<close>

record request =
  http_method :: string
  path :: string
  GET :: querydict
  body :: request_body

text \<open>
  A form object: whether it was built from submitted data, that data, and the errors
  found by validation (\<open>None\<close> as long as validation has not run).
\<close>

record form =
  is_bound :: bool
  data :: querydict
  errors :: "errordict option"

text \<open>
  \<^verbatim>\<open>app/forms.py\<close> and \<^verbatim>\<open>app/models.py\<close> are not part of the sources, so
  the form class \<^verbatim>\<open>UsuarioForm\<close> is a parameter: \<open>clean\<close> gives the errors of a
  submission by field (none when it is valid; a uniqueness check may look at the table),
  and \<open>construct_instance\<close> builds the \<^verbatim>\<open>Usuario\<close> of a submission. The type
  \<open>'u\<close> of a \<^verbatim>\<open>Usuario\<close> is left open.
\<close>

record 'u form_class =
  clean :: "'u list \<Rightarrow> querydict \<Rightarrow> errordict"
  construct_instance :: "querydict \<Rightarrow> 'u"

text \<open>The exceptions the framework calls of the views can raise.\<close>

datatype error =
  ValueError
| NoReverseMatch
| TooManyFieldsSent
| MultiPartParserError
| TemplateDoesNotExist

text \<open>
  What a view hands to a template: a form or the rows of a query. A response is either a
  redirect to a location or a rendered page. The templates are not part of the sources,
  so a page is recorded as everything the template engine was given to render it: the
  request, the template's name and the context.
\<close>

datatype 'u context_value = FormValue form | QuerySet "'u list"

type_synonym 'u context_dict = "(string \<times> 'u context_value) list"

datatype 'u response =
  HttpResponseRedirect string
| HttpResponse request string "'u context_dict"

section \<open>The URL configuration\<close>

datatype view = Cadastrar_usuario | Listar_usuarios

record urlpattern =
  route :: string
  view :: view
  name :: string

text \<open>\<^verbatim>\<open>urlpatterns\<close> of \<^verbatim>\<open>app/urls.py\<close>.\<close>

definition urlpatterns :: "urlpattern list" where
  "urlpatterns =
     [\<lparr>route = ''cadastrar/'', view = Cadastrar_usuario, name = ''cadastrar_usuario''\<rparr>,
      \<lparr>route = ''usuarios/'', view = Listar_usuarios, name = ''listar_usuarios''\<rparr>]"

text \<open>
  The router: a route without converters matches exactly its own text, the first
  matching pattern wins. \<open>reverse\<close> finds the route of a pattern by its name. Paths are
  relative to the place where the project mounts this URL configuration.
\<close>

fun resolve :: "urlpattern list \<Rightarrow> string \<Rightarrow> view option" where
  "resolve [] p = None"
| "resolve (u # us) p = (if route u = p then Some (view u) else resolve us p)"

fun reverse :: "urlpattern list \<Rightarrow> string \<Rightarrow> string option" where
  "reverse [] n = None"
| "reverse (u # us) n = (if name u = n then Some (route u) else reverse us n)"

section \<open>The framework calls of the views\<close>

text \<open>
  The framework's limit on the number of fields of a request body. The project's
  settings are not part of the sources; this is the framework's default.
\<close>

definition DATA_UPLOAD_MAX_NUMBER_FIELDS :: nat where
  "DATA_UPLOAD_MAX_NUMBER_FIELDS = 1000"

text \<open>
  \<^verbatim>\<open>request.POST\<close>: the body is parsed when the attribute is read. A multipart body
  that does not parse raises \<open>MultiPartParserError\<close>, a body with more fields than the
  limit raises \<open>TooManyFieldsSent\<close>.
\<close>

definition POST :: "request \<Rightarrow> error + querydict" where
  "POST request =
     (case body request of
        Malformed_multipart \<Rightarrow> Inl MultiPartParserError
      | Form_fields q \<Rightarrow>
          if DATA_UPLOAD_MAX_NUMBER_FIELDS < length q then Inl TooManyFieldsSent else Inr q)"

text \<open>\<^verbatim>\<open>UsuarioForm()\<close> is \<open>UsuarioForm None\<close>, \<^verbatim>\<open>UsuarioForm(d)\<close> is \<open>UsuarioForm (Some d)\<close>.\<close>

definition UsuarioForm :: "querydict option \<Rightarrow> form" where
  "UsuarioForm d =
     \<lparr>is_bound = (d \<noteq> None), data = (case d of None \<Rightarrow> [] | Some q \<Rightarrow> q), errors = None\<rparr>"

text \<open>Validation fills in the errors of the form; an unbound form has none.\<close>

definition full_clean :: "'u form_class \<Rightarrow> 'u list \<Rightarrow> form \<Rightarrow> form" where
  "full_clean cls db f =
     (if is_bound f then f\<lparr>errors := Some (clean cls db (data f))\<rparr>
      else f\<lparr>errors := Some []\<rparr>)"

text \<open>
  \<^verbatim>\<open>form.is_valid()\<close>: a bound form whose validation (run now, unless it has run
  before) found no error. The form comes back with its errors filled in.
\<close>

definition is_valid :: "'u form_class \<Rightarrow> 'u list \<Rightarrow> form \<Rightarrow> bool \<times> form" where
  "is_valid cls db f =
     (if is_bound f then
        (let f' = (case errors f of None \<Rightarrow> full_clean cls db f | Some e \<Rightarrow> f)
         in (errors f' = Some [], f'))
      else (False, f))"

text \<open>
  Modelled from the spec: the persistence layer behind \<^verbatim>\<open>form.save()\<close> (the model
  \<^verbatim>\<open>Usuario\<close> of \<^verbatim>\<open>app/models.py\<close> is missing). Saving creates one record, the
  instance built from the form's data, in a single write; a form that has not validated
  refuses to save with \<open>ValueError\<close>.
\<close>

definition save :: "'u form_class \<Rightarrow> form \<Rightarrow> 'u list \<Rightarrow> error + 'u list" where
  "save cls f db =
     (if is_bound f \<and> errors f = Some [] then Inr (db @ [construct_instance cls (data f)])
      else Inl ValueError)"

text \<open>
  Modelled from the spec: the persistence layer behind \<^verbatim>\<open>Usuario.objects.all()\<close>
  (the model \<^verbatim>\<open>Usuario\<close> of \<^verbatim>\<open>app/models.py\<close> is missing). It fetches every
  record of the table.
\<close>

definition objects_all :: "'u list \<Rightarrow> 'u list" where
  "objects_all db = db"

text \<open>
  \<^verbatim>\<open>redirect(name)\<close> answers with a redirect to the route of that name and raises
  \<open>NoReverseMatch\<close> when the URL configuration has no such name.
\<close>

definition redirect :: "string \<Rightarrow> error + 'u response" where
  "redirect to_name =
     (case reverse urlpatterns to_name of
        None \<Rightarrow> Inl NoReverseMatch
      | Some url \<Rightarrow> Inr (HttpResponseRedirect url))"

text \<open>
  Modelled from the spec: the template files of the project, which are not part of the
  sources. The spec names two.
\<close>

definition templates :: "string list" where
  "templates = [''cadastrar_usuario.html'', ''listar_usuarios.html'']"

text \<open>
  \<^verbatim>\<open>render(request, template_name, context)\<close> hands the request, the template and
  the context to the template engine and answers with the page; it raises
  \<open>TemplateDoesNotExist\<close> for a template the project does not have.
\<close>

definition render :: "request \<Rightarrow> string \<Rightarrow> 'u context_dict \<Rightarrow> error + 'u response" where
  "render request template_name ctx =
     (if template_name \<in> set templates then Inr (HttpResponse request template_name ctx)
      else Inl TemplateDoesNotExist)"

section \<open>The views\<close>

text \<open>
  \<^verbatim>\<open>
  def cadastrar_usuario(request):
      if request.method == 'POST':
          form = UsuarioForm(request.POST)
          if form.is_valid():
              form.save()
              return redirect('listar_usuarios')
      else:
          form = UsuarioForm()
      return render(request, 'cadastrar_usuario.html', {'form': form})
  \<close>
  An exception of \<^verbatim>\<open>request.POST\<close> or of \<^verbatim>\<open>form.save()\<close> leaves the table as
  it was; one of \<^verbatim>\<open>redirect\<close> comes after the write.
\<close>

definition cadastrar_usuario ::
    "'u form_class \<Rightarrow> request \<Rightarrow> 'u list \<Rightarrow> (error + 'u response) \<times> 'u list" where
  "cadastrar_usuario cls request db =
     (if http_method request = ''POST'' then
        (case POST request of
           Inl e \<Rightarrow> (Inl e, db)
         | Inr d \<Rightarrow>
             (let (valid, form) = is_valid cls db (UsuarioForm (Some d)) in
              if valid then
                (case save cls form db of
                   Inl e \<Rightarrow> (Inl e, db)
                 | Inr db' \<Rightarrow> (redirect ''listar_usuarios'', db'))
              else (render request ''cadastrar_usuario.html'' [(''form'', FormValue form)], db)))
      else
        (let form = UsuarioForm None in
         (render request ''cadastrar_usuario.html'' [(''form'', FormValue form)], db)))"

text \<open>
  \<^verbatim>\<open>
  def listar_usuarios(request):
      usuarios = Usuario.objects.all()
      return render(request, 'listar_usuarios.html', {'usuarios': usuarios})
  \<close>
\<close>

definition listar_usuarios :: "request \<Rightarrow> 'u list \<Rightarrow> (error + 'u response) \<times> 'u list" where
  "listar_usuarios request db =
     (let usuarios = objects_all db in
      (render request ''listar_usuarios.html'' [(''usuarios'', QuerySet usuarios)], db))"

text \<open>The function a pattern of the URL configuration refers to.\<close>

fun call_view ::
    "'u form_class \<Rightarrow> view \<Rightarrow> request \<Rightarrow> 'u list \<Rightarrow> (error + 'u response) \<times> 'u list" where
  "call_view cls Cadastrar_usuario = cadastrar_usuario cls"
| "call_view cls Listar_usuarios = listar_usuarios"

section \<open>A concrete form class and concrete requests\<close>

text \<open>
  An instance of the parameters, to run the views on concrete requests: a form class with
  one required field \<open>nome\<close>, whose records are the submitted data themselves, a
  \<open>POST\<close> request carrying given form fields, and a \<open>GET\<close> request with given query
  parameters.
\<close>

definition nome_form :: "querydict form_class" where
  "nome_form =
     \<lparr>clean = (\<lambda>db d. case map_of d ''nome'' of
                 None \<Rightarrow> [(''nome'', [''This field is required.''])]
               | Some v \<Rightarrow> if v = [] then [(''nome'', [''This field is required.''])] else []),
      construct_instance = (\<lambda>d. d)\<rparr>"

definition post_request :: "querydict \<Rightarrow> request" where
  "post_request d =
     \<lparr>http_method = ''POST'', path = ''cadastrar/'', GET = [], body = Form_fields d\<rparr>"

definition get_request :: "string \<Rightarrow> querydict \<Rightarrow> request" where
  "get_request p q = \<lparr>http_method = ''GET'', path = p, GET = q, body = Form_fields []\<rparr>"

section \<open>What the framework calls compute\<close>

lemma is_valid_fresh:
  "is_valid cls db (UsuarioForm (Some d)) =
     (clean cls db d = [], \<lparr>is_bound = True, data = d, errors = Some (clean cls db d)\<rparr>)"
  by (simp add: is_valid_def UsuarioForm_def full_clean_def)

lemma reverse_listar: "reverse urlpatterns ''listar_usuarios'' = Some ''usuarios/''"
  by (simp add: urlpatterns_def)

lemma resolve_usuarios: "resolve urlpatterns ''usuarios/'' = Some Listar_usuarios"
  by (simp add: urlpatterns_def)

lemma render_cadastrar:
  "render request ''cadastrar_usuario.html'' ctx =
     Inr (HttpResponse request ''cadastrar_usuario.html'' ctx)"
  by (simp add: render_def templates_def)

lemma render_listar:
  "render request ''listar_usuarios.html'' ctx =
     Inr (HttpResponse request ''listar_usuarios.html'' ctx)"
  by (simp add: render_def templates_def)

lemma POST_post_request:
  "length d \<le> 1000 \<Longrightarrow> POST (post_request d) = Inr d"
  by (simp add: POST_def post_request_def DATA_UPLOAD_MAX_NUMBER_FIELDS_def)

section \<open>The views, branch by branch\<close>

lemma cadastrar_usuario_not_post:
  "http_method request \<noteq> ''POST'' \<Longrightarrow>
   cadastrar_usuario cls request db =
     (Inr (HttpResponse request ''cadastrar_usuario.html''
        [(''form'', FormValue \<lparr>is_bound = False, data = [], errors = None\<rparr>)]), db)"
  by (simp add: cadastrar_usuario_def UsuarioForm_def render_cadastrar)

lemma cadastrar_usuario_post_cases:
  "http_method request = ''POST'' \<Longrightarrow> POST request = Inr d \<Longrightarrow>
   cadastrar_usuario cls request db =
     (if clean cls db d = []
      then (Inr (HttpResponseRedirect ''usuarios/''), db @ [construct_instance cls d])
      else (Inr (HttpResponse request ''cadastrar_usuario.html''
              [(''form'', FormValue \<lparr>is_bound = True, data = d,
                                      errors = Some (clean cls db d)\<rparr>)]), db))"
  by (simp add: cadastrar_usuario_def is_valid_fresh save_def redirect_def reverse_listar
      render_cadastrar)


lemma listar_usuarios_eq:
  "listar_usuarios request db =
     (Inr (HttpResponse request ''listar_usuarios.html'' [(''usuarios'', QuerySet db)]), db)"
  by (simp add: listar_usuarios_def objects_all_def render_listar)

section \<open>The registration view\<close>

text \<open>
  C1: a \<open>POST\<close> whose data pass the validation of the form adds exactly one record to the
  table, the one built from the submitted data, in one write, and answers with a redirect
  to the route that the URL configuration maps to the listing view.
\<close>

theorem cadastrar_usuario_valid_post:
  assumes "http_method request = ''POST''"
    and "POST request = Inr d"
    and "fst (is_valid cls db (UsuarioForm (Some d)))"
  shows "cadastrar_usuario cls request db =
           (Inr (HttpResponseRedirect ''usuarios/''), db @ [construct_instance cls d])
         \<and> length (snd (cadastrar_usuario cls request db)) = Suc (length db)
         \<and> resolve urlpatterns ''usuarios/'' = Some Listar_usuarios
         \<and> call_view cls Listar_usuarios = listar_usuarios"
proof -
  from assms(3) have "clean cls db d = []"
    by (simp add: is_valid_fresh)
  with assms(1,2) have "cadastrar_usuario cls request db =
      (Inr (HttpResponseRedirect ''usuarios/''), db @ [construct_instance cls d])"
    by (simp add: cadastrar_usuario_post_cases)
  then show ?thesis
    by (simp add: resolve_usuarios)
qed

theorem cadastrar_usuario_valid_post_witness:
  "http_method (post_request [(''nome'', ''Ana'')]) = ''POST''
   \<and> POST (post_request [(''nome'', ''Ana'')]) = Inr [(''nome'', ''Ana'')]
   \<and> fst (is_valid nome_form [] (UsuarioForm (Some [(''nome'', ''Ana'')])))
   \<and> cadastrar_usuario nome_form (post_request [(''nome'', ''Ana'')]) [] =
       (Inr (HttpResponseRedirect ''usuarios/''), [[(''nome'', ''Ana'')]])"
proof -
  have m: "http_method (post_request [(''nome'', ''Ana'')]) = ''POST''"
    by (simp add: post_request_def)
  have p: "POST (post_request [(''nome'', ''Ana'')]) = Inr [(''nome'', ''Ana'')]"
    by (simp add: POST_post_request)
  have v: "fst (is_valid nome_form [] (UsuarioForm (Some [(''nome'', ''Ana'')])))"
    by (simp add: is_valid_fresh nome_form_def)
  from cadastrar_usuario_valid_post [OF m p v] m p v show ?thesis
    by (simp add: nome_form_def)
qed

text \<open>
  C2: a \<open>POST\<close> whose data fail the validation leaves the table as it is and answers,
  as an ordinary response, with the form template; the form in it is bound to the
  submitted data and carries the errors that validation found, of which there is at least
  one.
\<close>

theorem cadastrar_usuario_invalid_post:
  assumes "http_method request = ''POST''"
    and "POST request = Inr d"
    and "\<not> fst (is_valid cls db (UsuarioForm (Some d)))"
  shows "clean cls db d \<noteq> []
         \<and> cadastrar_usuario cls request db =
             (Inr (HttpResponse request ''cadastrar_usuario.html''
                [(''form'', FormValue \<lparr>is_bound = True, data = d,
                                        errors = Some (clean cls db d)\<rparr>)]), db)"
proof -
  from assms(3) have "clean cls db d \<noteq> []"
    by (simp add: is_valid_fresh)
  with assms(1,2) show ?thesis
    by (simp add: cadastrar_usuario_post_cases)
qed

theorem cadastrar_usuario_invalid_post_witness:
  "http_method (post_request [(''nome'', [])]) = ''POST''
   \<and> POST (post_request [(''nome'', [])]) = Inr [(''nome'', [])]
   \<and> \<not> fst (is_valid nome_form [[(''nome'', ''Bia'')]] (UsuarioForm (Some [(''nome'', [])])))
   \<and> cadastrar_usuario nome_form (post_request [(''nome'', [])]) [[(''nome'', ''Bia'')]] =
       (Inr (HttpResponse (post_request [(''nome'', [])]) ''cadastrar_usuario.html''
          [(''form'', FormValue \<lparr>is_bound = True, data = [(''nome'', [])],
                                  errors = Some [(''nome'', [''This field is required.''])]\<rparr>)]),
        [[(''nome'', ''Bia'')]])"
proof -
  have m: "http_method (post_request [(''nome'', [])]) = ''POST''"
    by (simp add: post_request_def)
  have p: "POST (post_request [(''nome'', [])]) = Inr [(''nome'', [])]"
    by (simp add: POST_post_request)
  have v: "\<not> fst (is_valid nome_form [[(''nome'', ''Bia'')]] (UsuarioForm (Some [(''nome'', [])])))"
    by (simp add: is_valid_fresh nome_form_def)
  from cadastrar_usuario_invalid_post [OF m p v] m p v show ?thesis
    by (simp add: nome_form_def)
qed

text \<open>
  C4: a \<open>GET\<close> leaves the table as it is and answers with the form template and an
  unbound form: no data, no errors.
\<close>

theorem cadastrar_usuario_get:
  assumes "http_method request = ''GET''"
  shows "cadastrar_usuario cls request db =
           (Inr (HttpResponse request ''cadastrar_usuario.html''
              [(''form'', FormValue (UsuarioForm None))]), db)
         \<and> UsuarioForm None = \<lparr>is_bound = False, data = [], errors = None\<rparr>"
  using assms by (simp add: cadastrar_usuario_not_post) (simp add: UsuarioForm_def)

theorem cadastrar_usuario_get_witness:
  "http_method (get_request ''cadastrar/'' []) = ''GET''
   \<and> cadastrar_usuario nome_form (get_request ''cadastrar/'' []) [[(''nome'', ''Bia'')]] =
       (Inr (HttpResponse (get_request ''cadastrar/'' []) ''cadastrar_usuario.html''
          [(''form'', FormValue \<lparr>is_bound = False, data = [], errors = None\<rparr>)]),
        [[(''nome'', ''Bia'')]])"
proof -
  have m: "http_method (get_request ''cadastrar/'' []) = ''GET''"
    by (simp add: get_request_def)
  from cadastrar_usuario_get [OF m, of nome_form "[[(''nome'', ''Bia'')]]"] m show ?thesis
    by simp
qed

text \<open>
  C8: a request whose method is neither \<open>POST\<close> nor \<open>GET\<close> is answered exactly as
  the same request sent with \<open>GET\<close>: the table is left as it is and the response is the
  form template with an unbound form, the request passed on to the template engine.
\<close>

theorem cadastrar_usuario_other_method:
  assumes "http_method request \<noteq> ''POST''" and "http_method request \<noteq> ''GET''"
  shows "cadastrar_usuario cls request db =
           (Inr (HttpResponse request ''cadastrar_usuario.html''
              [(''form'', FormValue \<lparr>is_bound = False, data = [], errors = None\<rparr>)]), db)
         \<and> cadastrar_usuario cls (request\<lparr>http_method := ''GET''\<rparr>) db =
             (Inr (HttpResponse (request\<lparr>http_method := ''GET''\<rparr>) ''cadastrar_usuario.html''
                [(''form'', FormValue \<lparr>is_bound = False, data = [], errors = None\<rparr>)]), db)"
  using assms by (simp add: cadastrar_usuario_not_post)

theorem cadastrar_usuario_other_method_witness:
  "cadastrar_usuario nome_form
     \<lparr>http_method = ''PUT'', path = ''cadastrar/'', GET = [],
        body = Form_fields [(''nome'', ''Ana'')]\<rparr> [] =
     (Inr (HttpResponse
        \<lparr>http_method = ''PUT'', path = ''cadastrar/'', GET = [],
           body = Form_fields [(''nome'', ''Ana'')]\<rparr>
        ''cadastrar_usuario.html''
        [(''form'', FormValue \<lparr>is_bound = False, data = [], errors = None\<rparr>)]), [])"
proof -
  let ?put = "\<lparr>http_method = ''PUT'', path = ''cadastrar/'', GET = [],
                 body = Form_fields [(''nome'', ''Ana'')]\<rparr>"
  have m: "http_method ?put \<noteq> ''POST''" "http_method ?put \<noteq> ''GET''"
    by simp_all
  from cadastrar_usuario_other_method [OF m, of nome_form "[]"] show ?thesis
    by (rule conjunct1)
qed

section \<open>The listing view\<close>

text \<open>
  C3: the listing view hands the whole table to its template, every record, in the
  table's order, none left out. In particular, after two valid submissions to the
  registration view, the listing holds the records built from both of them, next to
  every record that was there before.
\<close>

theorem listar_usuarios_all:
  "listar_usuarios request db =
     (Inr (HttpResponse request ''listar_usuarios.html'' [(''usuarios'', QuerySet db)]), db)
   \<and> (http_method ra = ''POST'' \<and> POST ra = Inr d1
        \<and> fst (is_valid cls db (UsuarioForm (Some d1)))
        \<and> http_method rb = ''POST'' \<and> POST rb = Inr d2
        \<and> fst (is_valid cls (snd (cadastrar_usuario cls ra db)) (UsuarioForm (Some d2)))
      \<longrightarrow> (\<exists>us. fst (listar_usuarios request
                        (snd (cadastrar_usuario cls rb (snd (cadastrar_usuario cls ra db))))) =
                   Inr (HttpResponse request ''listar_usuarios.html'' [(''usuarios'', QuerySet us)])
                \<and> set db \<subseteq> set us
                \<and> construct_instance cls d1 \<in> set us
                \<and> construct_instance cls d2 \<in> set us))"
proof (intro conjI impI)
  show "listar_usuarios request db =
     (Inr (HttpResponse request ''listar_usuarios.html'' [(''usuarios'', QuerySet db)]), db)"
    by (rule listar_usuarios_eq)
next
  assume h: "http_method ra = ''POST'' \<and> POST ra = Inr d1
        \<and> fst (is_valid cls db (UsuarioForm (Some d1)))
        \<and> http_method rb = ''POST'' \<and> POST rb = Inr d2
        \<and> fst (is_valid cls (snd (cadastrar_usuario cls ra db)) (UsuarioForm (Some d2)))"
  let ?a = "construct_instance cls d1" and ?b = "construct_instance cls d2"
  from h have a: "snd (cadastrar_usuario cls ra db) = db @ [?a]"
    by (simp add: cadastrar_usuario_post_cases is_valid_fresh)
  from h have "clean cls (db @ [?a]) d2 = []"
    by (simp add: a is_valid_fresh)
  with h have b: "snd (cadastrar_usuario cls rb (db @ [?a])) = db @ [?a, ?b]"
    by (simp add: cadastrar_usuario_post_cases)
  show "\<exists>us. fst (listar_usuarios request
                        (snd (cadastrar_usuario cls rb (snd (cadastrar_usuario cls ra db))))) =
                   Inr (HttpResponse request ''listar_usuarios.html'' [(''usuarios'', QuerySet us)])
                \<and> set db \<subseteq> set us \<and> ?a \<in> set us \<and> ?b \<in> set us"
    by (rule exI [of _ "db @ [?a, ?b]"]) (auto simp add: a b listar_usuarios_eq)
qed

theorem listar_usuarios_all_witness:
  "http_method (post_request [(''nome'', ''Ana'')]) = ''POST''
   \<and> POST (post_request [(''nome'', ''Ana'')]) = Inr [(''nome'', ''Ana'')]
   \<and> fst (is_valid nome_form [] (UsuarioForm (Some [(''nome'', ''Ana'')])))
   \<and> http_method (post_request [(''nome'', ''Bia'')]) = ''POST''
   \<and> POST (post_request [(''nome'', ''Bia'')]) = Inr [(''nome'', ''Bia'')]
   \<and> fst (is_valid nome_form
            (snd (cadastrar_usuario nome_form (post_request [(''nome'', ''Ana'')]) []))
            (UsuarioForm (Some [(''nome'', ''Bia'')])))
   \<and> (\<exists>us. fst (listar_usuarios (get_request ''usuarios/'' [])
              (snd (cadastrar_usuario nome_form (post_request [(''nome'', ''Bia'')])
                 (snd (cadastrar_usuario nome_form (post_request [(''nome'', ''Ana'')]) []))))) =
            Inr (HttpResponse (get_request ''usuarios/'' []) ''listar_usuarios.html''
                   [(''usuarios'', QuerySet us)])
          \<and> [(''nome'', ''Ana'')] \<in> set us \<and> [(''nome'', ''Bia'')] \<in> set us)"
proof -
  let ?da = "[(''nome'', ''Ana'')]" and ?db = "[(''nome'', ''Bia'')]"
  let ?ra = "post_request ?da" and ?rb = "post_request ?db"
  have pa: "http_method ?ra = ''POST''" and pb: "http_method ?rb = ''POST''"
    by (simp_all add: post_request_def)
  have qa: "POST ?ra = Inr ?da" and qb: "POST ?rb = Inr ?db"
    by (simp_all add: POST_post_request)
  have va: "fst (is_valid nome_form [] (UsuarioForm (Some ?da)))"
    by (simp add: is_valid_fresh nome_form_def)
  have vb: "fst (is_valid nome_form (snd (cadastrar_usuario nome_form ?ra []))
                   (UsuarioForm (Some ?db)))"
    by (simp add: is_valid_fresh nome_form_def)
  have ia: "construct_instance nome_form ?da = ?da"
    and ib: "construct_instance nome_form ?db = ?db"
    by (simp_all add: nome_form_def)
  from pa qa va pb qb vb have
    "http_method ?ra = ''POST'' \<and> POST ?ra = Inr ?da
     \<and> fst (is_valid nome_form [] (UsuarioForm (Some ?da)))
     \<and> http_method ?rb = ''POST'' \<and> POST ?rb = Inr ?db
     \<and> fst (is_valid nome_form (snd (cadastrar_usuario nome_form ?ra []))
              (UsuarioForm (Some ?db)))"
    by (intro conjI)
  with listar_usuarios_all
    [of "get_request ''usuarios/'' []" "[]" ?ra ?da nome_form ?rb ?db, THEN conjunct2]
  have "\<exists>us. fst (listar_usuarios (get_request ''usuarios/'' [])
              (snd (cadastrar_usuario nome_form ?rb (snd (cadastrar_usuario nome_form ?ra []))))) =
            Inr (HttpResponse (get_request ''usuarios/'' []) ''listar_usuarios.html''
                   [(''usuarios'', QuerySet us)])
          \<and> set [] \<subseteq> set us
          \<and> construct_instance nome_form ?da \<in> set us
          \<and> construct_instance nome_form ?db \<in> set us"
    by (rule mp)
  then have "\<exists>us. fst (listar_usuarios (get_request ''usuarios/'' [])
              (snd (cadastrar_usuario nome_form ?rb (snd (cadastrar_usuario nome_form ?ra []))))) =
            Inr (HttpResponse (get_request ''usuarios/'' []) ''listar_usuarios.html''
                   [(''usuarios'', QuerySet us)])
          \<and> ?da \<in> set us \<and> ?db \<in> set us"
    by (simp only: ia ib) blast
  with pa qa va pb qb vb show ?thesis
    by (intro conjI)
qed

text \<open>
  C5: on an empty table the listing view answers, as an ordinary response, with its
  template and no record at all.
\<close>

theorem listar_usuarios_empty:
  "listar_usuarios request ([] :: 'u list) =
     (Inr (HttpResponse request ''listar_usuarios.html'' [(''usuarios'', QuerySet [])]), [])"
  by (simp add: listar_usuarios_def objects_all_def render_listar)

text \<open>C6: the listing view leaves the table exactly as it found it.\<close>

theorem listar_usuarios_read_only: "snd (listar_usuarios request db) = db"
  by (simp add: listar_usuarios_def)



section \<open>Routes and outcomes\<close>

text \<open>
  C7: the URL configuration has exactly two routes, \<open>cadastrar/\<close> for the registration
  view and \<open>usuarios/\<close> for the listing view; no other path resolves to a view.
\<close>

theorem urlpatterns_routes:
  "map (\<lambda>u. (route u, view u)) urlpatterns =
     [(''cadastrar/'', Cadastrar_usuario), (''usuarios/'', Listar_usuarios)]
   \<and> resolve urlpatterns p =
       (if p = ''cadastrar/'' then Some Cadastrar_usuario
        else if p = ''usuarios/'' then Some Listar_usuarios else None)
   \<and> call_view cls Cadastrar_usuario = cadastrar_usuario cls
   \<and> call_view cls Listar_usuarios = listar_usuarios"
  by (auto simp add: urlpatterns_def)




end
